theory Spec2Isabelle
  imports Main "HOL-Library.Sublist"
begin

section \<open>Errors\<close>

text \<open>
  Go error values of \<^verbatim>\<open>pkg/sources/git/git.go\<close>. An error made by a library call is
  \<open>ExternalError\<close> with its message, except the sentinel
  \<^verbatim>\<open>plumbing.ErrReferenceNotFound\<close>, which the code compares by identity.
  \<^verbatim>\<open>errors.WrapPrefix(err, p, 0)\<close> and \<^verbatim>\<open>errors.New(err)\<close> of go-errors keep the
  wrapped error; a run-time panic (nil dereference, index out of range) is a value too.
\<close>

type_synonym hash = string

datatype error =
    ErrReferenceNotFound
  | ExternalError string
  | ErrGitNotFound
  | ErrInvalidConnectionType
  | ErrNoBaseRefs string
  | WrapPrefix error string
  | ErrorsNew error
  | Panic string

section \<open>Diffs, commits and repositories\<close>

text \<open>
  The types of go-gitdiff, go-git and the protobuf messages, with the fields that
  \<^verbatim>\<open>git.go\<close> reads. A pointer that may be nil is an \<open>option\<close>; \<open>int64\<close> values
  are only passed on or counted up from zero once per record of the log, so they are
  \<open>int\<close>. A \<^verbatim>\<open>time.Time\<close> is a number of nanoseconds.
\<close>

datatype LineOp = OpContext | OpDelete | OpAdd

record Line =
  Op :: LineOp
  LineText :: string

record TextFragment =
  NewPosition :: int
  Lines :: "Line list"

type_synonym Time = int

record PatchIdentity =
  IdentityName :: string
  IdentityEmail :: string

record PatchHeader =
  SHA :: string
  Author :: "PatchIdentity option"
  AuthorDate :: Time

record File =
  NewName :: string
  PatchHeader :: "PatchHeader option"
  TextFragments :: "TextFragment list"

record Userinfo =
  username :: string
  password :: "string option"

record URL =
  Scheme :: string
  Opaque :: string
  User :: "Userinfo option"
  Host :: string
  Path :: string

record MetaData =
  Commit :: string
  File :: string
  Email :: string
  Repository :: string
  Timestamp :: string
  Line :: int

datatype SourceType = SOURCE_TYPE_GIT | SOURCE_TYPE_OTHER nat

record Chunk =
  SourceName :: string
  SourceID :: int
  SourceType :: SourceType
  SourceMetadata :: MetaData
  Data :: string
  Verify :: bool

text \<open>
  \<open>ScanOptions\<close> is declared in another file of the package; these are the fields
  \<^verbatim>\<open>git.go\<close> uses. \<open>Filter_Pass\<close> is \<^verbatim>\<open>scanOptions.Filter.Pass\<close>.
\<close>

record ScanOptions =
  Filter_Pass :: "string \<Rightarrow> bool"
  BaseHash :: string
  HeadHash :: string
  MaxDepth :: int

text \<open>
  A worktree of go-git: \<open>Status\<close> lists the paths of the status map in the order this
  run iterates over it; \<open>Filesystem_Open\<close> opens a path, and an opened file is what
  \<^verbatim>\<open>io.Copy\<close> gets out of it, an error or the content.
\<close>

type_synonym file_handle = "error + string"

record Worktree =
  Status :: "error + string list"
  Filesystem_Open :: "string \<Rightarrow> error + file_handle"

text \<open>
  A repository handle of go-git: \<open>Remote_origin\<close> is \<^verbatim>\<open>repo.Remote("origin")\<close>
  followed by \<^verbatim>\<open>Config().URLs\<close>, \<open>Head\<close> is \<^verbatim>\<open>repo.Head()\<close>.
\<close>

record Repository =
  Remote_origin :: "error + string list"
  Head :: "error + hash"
  Worktree :: "error + Worktree"

record Git =
  sourceType :: SourceType
  sourceName :: string
  sourceID :: int
  jobID :: int
  sourceMetadataFunc :: "string \<Rightarrow> string \<Rightarrow> string \<Rightarrow> string \<Rightarrow> string \<Rightarrow> int \<Rightarrow> MetaData"
  verify :: bool

section \<open>The environment\<close>

text \<open>
  What \<^verbatim>\<open>git.go\<close> calls and does not define: \<^verbatim>\<open>sanitizer.UTF8\<close> of the
  repository, \<^verbatim>\<open>Line.String\<close> of go-gitdiff, \<^verbatim>\<open>Time.String\<close>, \<^verbatim>\<open>url.Parse\<close> and
  \<^verbatim>\<open>URL.String\<close> of the standard library, whether the \<^verbatim>\<open>git\<close> command is found,
  the log of gitleaks by path and head, the clock reading taken when the working-tree
  scan reaches a path, the system's temporary directory, the random part of a name made
  by \<^verbatim>\<open>ioutil.TempDir\<close> (or its error), what \<^verbatim>\<open>git clone\<close> does to the directories
  on disk, \<^verbatim>\<open>git.PlainOpen\<close>, and \<^verbatim>\<open>NewScanOptions()\<close>.
\<close>

record env =
  UTF8 :: "string \<Rightarrow> string"
  Line_String :: "Line \<Rightarrow> string"
  Time_String :: "Time \<Rightarrow> string"
  url_Parse :: "string \<Rightarrow> error + URL"
  URL_String :: "URL \<Rightarrow> string"
  git_in_PATH :: bool
  GitLog :: "string \<Rightarrow> string \<Rightarrow> error + File list"
  time_Now :: "string \<Rightarrow> Time"
  os_TempDir :: string
  TempDir_random :: "string set \<Rightarrow> error + string"
  git_clone :: "string \<Rightarrow> string \<Rightarrow> string set \<Rightarrow> string set"
  PlainOpen :: "string set \<Rightarrow> string \<Rightarrow> error + Repository"
  NewScanOptions :: ScanOptions

section \<open>URL sanitizer\<close>

definition stripPassword :: "env \<Rightarrow> string \<Rightarrow> error + string" where
  "stripPassword E u =
     (if prefix ''git@'' u then Inr u
      else (case url_Parse E u of
              Inl err \<Rightarrow> Inl (WrapPrefix err ''repo remote cannot be sanitized as URI'')
            | Inr repoURL \<Rightarrow> Inr (URL_String E (repoURL\<lparr>User := None\<rparr>))))"

section \<open>Provenance metadata\<close>

text \<open>
  \<open>NewGit\<close> stores the function it is given in the field \<open>sourceMetadataFunc\<close>, whose
  type names its arguments \<^verbatim>\<open>file, email, commit, timestamp, repository, line\<close>.
  The semaphore that \<open>NewGit\<close> sizes by its \<open>concurrency\<close> argument is never
  acquired in \<^verbatim>\<open>git.go\<close> and is left out.
  \<open>Init_sourceMetadataFunc\<close> is the function literal that \<open>Init\<close> passes; its arguments
  are named \<^verbatim>\<open>file, email, commit, repository, timestamp, line\<close>, in this order.
\<close>

definition NewGit ::
  "SourceType \<Rightarrow> int \<Rightarrow> int \<Rightarrow> string \<Rightarrow> bool \<Rightarrow>
   (string \<Rightarrow> string \<Rightarrow> string \<Rightarrow> string \<Rightarrow> string \<Rightarrow> int \<Rightarrow> MetaData) \<Rightarrow> Git" where
  "NewGit sourceType' jobID' sourceID' sourceName' verify' sourceMetadataFunc' =
     \<lparr>sourceType = sourceType', sourceName = sourceName', sourceID = sourceID',
      jobID = jobID', sourceMetadataFunc = sourceMetadataFunc', verify = verify'\<rparr>"

definition Init_sourceMetadataFunc ::
  "env \<Rightarrow> string \<Rightarrow> string \<Rightarrow> string \<Rightarrow> string \<Rightarrow> string \<Rightarrow> int \<Rightarrow> MetaData" where
  "Init_sourceMetadataFunc E file email commit repository timestamp line =
     \<lparr>Commit = UTF8 E commit, File = UTF8 E file, Email = UTF8 E email,
      Repository = UTF8 E repository, Timestamp = UTF8 E timestamp, Line = line\<rparr>"

text \<open>The \<open>Git\<close> value that \<open>Init\<close> stores in the source, from the source's fields.\<close>

definition Init_git :: "env \<Rightarrow> string \<Rightarrow> int \<Rightarrow> int \<Rightarrow> bool \<Rightarrow> Git" where
  "Init_git E name jobId sourceId verify' =
     NewGit SOURCE_TYPE_GIT jobId sourceId name verify' (Init_sourceMetadataFunc E)"

section \<open>Commit history walk\<close>

definition GitCmdCheck :: "env \<Rightarrow> error option" where
  "GitCmdCheck E = (if git_in_PATH E then None else Some ErrGitNotFound)"

text \<open>
  \<^verbatim>\<open>strings.ReplaceAll(s, "\n", " ")\<close>: with one byte for one byte, every occurrence
  of the byte is replaced where it stands.
\<close>

definition ReplaceAll_byte :: "string \<Rightarrow> char \<Rightarrow> char \<Rightarrow> string" where
  "ReplaceAll_byte s old new = map (\<lambda>c. if c = old then new else c) s"

text \<open>The inner loop over the lines of a fragment: what is written to \<open>newLines\<close>.\<close>

fun newLines_loop :: "env \<Rightarrow> Line list \<Rightarrow> string" where
  "newLines_loop E [] = []"
| "newLines_loop E (line # rest) =
     (if Op line = OpAdd
      then ReplaceAll_byte (Line_String E line) (CHR 0x0A) (CHR '' '') @ [CHR 0x0A]
           @ newLines_loop E rest
      else newLines_loop E rest)"

text \<open>The body of the loop over the fragments of a file: the chunk sent for \<open>frag\<close>.\<close>

definition fragment_chunk ::
  "env \<Rightarrow> Git \<Rightarrow> string \<Rightarrow> string \<Rightarrow> string \<Rightarrow> string \<Rightarrow> string \<Rightarrow> TextFragment \<Rightarrow> Chunk" where
  "fragment_chunk E s fileName email hash when safeRepo frag =
     \<lparr>SourceName = sourceName s, SourceID = sourceID s, SourceType = sourceType s,
      SourceMetadata = sourceMetadataFunc s fileName email hash when safeRepo (NewPosition frag),
      Data = newLines_loop E (Lines frag), Verify = verify s\<rparr>"

text \<open>
  What the loop body does for a record once the sanitized URL is known: it reads the
  author's e-mail, the SHA and the author date from the patch header (empty strings when
  the header or the author is nil) and sends one chunk for each fragment of the record.
\<close>

definition file_chunks :: "env \<Rightarrow> Git \<Rightarrow> string \<Rightarrow> File \<Rightarrow> Chunk list" where
  "file_chunks E s safeRepo file =
     (let email = (case PatchHeader file of None \<Rightarrow> []
                   | Some h \<Rightarrow> (case Author h of None \<Rightarrow> [] | Some a \<Rightarrow> IdentityEmail a));
          hash = (case PatchHeader file of None \<Rightarrow> [] | Some h \<Rightarrow> SHA h);
          when = (case PatchHeader file of None \<Rightarrow> []
                  | Some h \<Rightarrow> Time_String E (AuthorDate h))
      in map (fragment_chunk E s (NewName file) email hash when safeRepo) (TextFragments file))"

text \<open>
  The loop over the records of the log, which are file diffs, each with the header of
  its commit. The result is the chunks sent to \<open>chunksChan\<close>, in order, and the error
  returned (\<open>None\<close> for nil). Reading the SHA of a record without a patch header, and
  the first URL of a remote without URLs, panic.
\<close>

fun ScanCommits_loop ::
  "env \<Rightarrow> Git \<Rightarrow> Repository \<Rightarrow> ScanOptions \<Rightarrow> int \<Rightarrow> File list \<Rightarrow> Chunk list \<times> error option" where
  "ScanCommits_loop E s repo scanOptions depth [] = ([], None)"
| "ScanCommits_loop E s repo scanOptions depth (file # rest) =
     (if MaxDepth scanOptions > 0 \<and> depth \<ge> MaxDepth scanOptions then ([], None)
      else if length (BaseHash scanOptions) > 0 \<and> PatchHeader file = None
      then ([], Some (Panic ''nil pointer dereference''))
      else if length (BaseHash scanOptions) > 0
              \<and> map_option SHA (PatchHeader file) = Some (BaseHash scanOptions)
      then ([], None)
      else if \<not> Filter_Pass scanOptions (NewName file)
      then ScanCommits_loop E s repo scanOptions (depth + 1) rest
      else if NewName file = []
      then ScanCommits_loop E s repo scanOptions (depth + 1) rest
      else
        (case Remote_origin repo of
           Inl err \<Rightarrow> ([], Some (WrapPrefix err ''error getting repo remote origin''))
         | Inr [] \<Rightarrow> ([], Some (Panic ''index out of range''))
         | Inr (url # _) \<Rightarrow>
             (case stripPassword E url of
                Inl err \<Rightarrow> ([], Some (WrapPrefix err ''couldn't get repo name''))
              | Inr safeRepo \<Rightarrow>
                  (let (later, r) = ScanCommits_loop E s repo scanOptions (depth + 1) rest
                   in (file_chunks E s safeRepo file @ later, r)))))"

definition ScanCommits ::
  "env \<Rightarrow> Git \<Rightarrow> Repository \<Rightarrow> string \<Rightarrow> ScanOptions \<Rightarrow> Chunk list \<times> error option" where
  "ScanCommits E s repo path scanOptions =
     (case GitCmdCheck E of
        Some err \<Rightarrow> ([], Some err)
      | None \<Rightarrow>
          (case GitLog E path (HeadHash scanOptions) of
             Inl err \<Rightarrow> ([], Some (WrapPrefix err ''could not open repo path''))
           | Inr fileChan \<Rightarrow> ScanCommits_loop E s repo scanOptions 0 fileChan))"

section \<open>Working-tree scan\<close>

text \<open>
  The loop over the status map: a path that the filter passes and that opens and reads
  gives one chunk; a path that fails to open or to read is skipped.
\<close>

fun ScanUnstaged_loop ::
  "env \<Rightarrow> Git \<Rightarrow> Worktree \<Rightarrow> ScanOptions \<Rightarrow> string \<Rightarrow> string list \<Rightarrow> Chunk list" where
  "ScanUnstaged_loop E s wt scanOptions safeRepo [] = []"
| "ScanUnstaged_loop E s wt scanOptions safeRepo (fh # rest) =
     (if \<not> Filter_Pass scanOptions fh then ScanUnstaged_loop E s wt scanOptions safeRepo rest
      else
        (let metadata = sourceMetadataFunc s fh ''unstaged'' ''unstaged''
                          (Time_String E (time_Now E fh)) safeRepo 0
         in case Filesystem_Open wt fh of
              Inl err \<Rightarrow> ScanUnstaged_loop E s wt scanOptions safeRepo rest
            | Inr fileHandle \<Rightarrow>
                (case fileHandle of
                   Inl err \<Rightarrow> ScanUnstaged_loop E s wt scanOptions safeRepo rest
                 | Inr fileBuf \<Rightarrow>
                     \<lparr>SourceName = sourceName s, SourceID = sourceID s,
                      SourceType = sourceType s, SourceMetadata = metadata,
                      Data = fileBuf, Verify = verify s\<rparr>
                     # ScanUnstaged_loop E s wt scanOptions safeRepo rest)))"

definition ScanUnstaged ::
  "env \<Rightarrow> Git \<Rightarrow> Repository \<Rightarrow> ScanOptions \<Rightarrow> Chunk list \<times> error option" where
  "ScanUnstaged E s repo scanOptions =
     (case Remote_origin repo of
        Inl err \<Rightarrow> ([], Some (ErrorsNew err))
      | Inr [] \<Rightarrow> ([], Some (Panic ''index out of range''))
      | Inr (url # _) \<Rightarrow>
          (case stripPassword E url of
             Inl err \<Rightarrow> ([], Some (ErrorsNew err))
           | Inr safeRepo \<Rightarrow>
               (if (case Head repo of Inr h \<Rightarrow> True | Inl err \<Rightarrow> err = ErrReferenceNotFound)
                then (case Worktree repo of
                        Inl err \<Rightarrow> ([], Some err)
                      | Inr wt \<Rightarrow>
                          (case Status wt of
                             Inl err \<Rightarrow> ([], Some err)
                           | Inr status \<Rightarrow>
                               (ScanUnstaged_loop E s wt scanOptions safeRepo status, None)))
                else ([], None))))"

section \<open>Scan of one repository\<close>

text \<open>
  \<open>Error\<close> is the message of an error, which \<open>ScanRepo\<close> searches for a known
  text. \<^verbatim>\<open>errors.WrapPrefix\<close> puts the prefix and a colon before the message of the
  wrapped error; \<^verbatim>\<open>errors.New(err)\<close> keeps the message; the quoting of \<open>%q\<close> is
  written for a base name that needs no escape.
\<close>

fun Error :: "error \<Rightarrow> string" where
  "Error ErrReferenceNotFound = ''reference not found''"
| "Error (ExternalError msg) = msg"
| "Error ErrGitNotFound =
     [CHR 0x27] @ ''git'' @ [CHR 0x27]
     @ '' command not found in $PATH. Make sure git is installed and included in $PATH''"
| "Error ErrInvalidConnectionType = ''invalid connection type for git source''"
| "Error (ErrNoBaseRefs base) = ''no base refs succeeded for base: '' @ [CHR 0x22] @ base @ [CHR 0x22]"
| "Error (WrapPrefix err pfx) = pfx @ '': '' @ Error err"
| "Error (ErrorsNew err) = Error err"
| "Error (Panic msg) = msg"

fun Contains :: "string \<Rightarrow> string \<Rightarrow> bool" where
  "Contains [] substr = (substr = [])"
| "Contains (c # cs) substr = (prefix substr (c # cs) \<or> Contains cs substr)"

fun is_Panic :: "error \<Rightarrow> bool" where
  "is_Panic (Panic msg) = True"
| "is_Panic err = False"

text \<open>
  \<open>ScanRepo\<close> runs the history walk, then the working-tree scan. The two clock
  readings only feed a debug message. A panic of the working-tree scan goes up as it is.
\<close>

definition ScanRepo ::
  "env \<Rightarrow> Git \<Rightarrow> Repository \<Rightarrow> string \<Rightarrow> ScanOptions \<Rightarrow> Chunk list \<times> error option" where
  "ScanRepo E s repo repoPath scanOptions =
     (case ScanCommits E s repo repoPath scanOptions of
        (sent, Some err) \<Rightarrow> (sent, Some err)
      | (sent, None) \<Rightarrow>
          (case ScanUnstaged E s repo scanOptions of
             (sent', Some err) \<Rightarrow>
               if is_Panic err then (sent @ sent', Some err)
               else if Contains (Error err) ''object not found''
               then (sent @ sent', Some err)
               else (sent @ sent', Some (ErrorsNew err))
           | (sent', None) \<Rightarrow> (sent @ sent', None)))"

section \<open>Repository acquisition and the source's \<open>Chunks\<close>\<close>

text \<open>
  The world outside the process: the paths present on disk, the log of the calls that
  create, remove, open and scan a directory, in order, and the chunks sent to
  \<open>chunksChan\<close>. \<^verbatim>\<open>os.RemoveAll\<close> removes the path and everything below it, does
  nothing for the empty path, and is taken to succeed (the code drops its error).
\<close>

datatype call =
    MkdirTemp string
  | RemoveAll string
  | PlainOpen_call string
  | ScanRepo_call string

record world =
  fs :: "string set"
  calls :: "call list"
  chunksChan :: "Chunk list"

definition os_RemoveAll :: "string \<Rightarrow> world \<Rightarrow> world" where
  "os_RemoveAll path w =
     w\<lparr>fs := (if path = [] then fs w
               else Set.filter (\<lambda>q. q \<noteq> path \<and> \<not> prefix (path @ ''/'') q) (fs w)),
       calls := calls w @ [RemoveAll path]\<rparr>"

definition CleanOnError :: "error option \<Rightarrow> string \<Rightarrow> world \<Rightarrow> world" where
  "CleanOnError err path w = (if err \<noteq> None then os_RemoveAll path w else w)"

text \<open>
  \<^verbatim>\<open>filepath.Join\<close> of a clean directory name and a file name.
\<close>

definition filepath_Join :: "string \<Rightarrow> string \<Rightarrow> string" where
  "filepath_Join dir name = dir @ ''/'' @ name"

text \<open>
  \<open>CloneRepo\<close> returns the path, and an error or the repository. The error of
  \<^verbatim>\<open>cloneCmd.Run()\<close> is assigned to a variable of the \<open>if\<close> statement only, so the
  function goes on to open the directory whatever the clone did. The deferred
  \<open>CleanOnError\<close> runs at each return that follows it, on the error being returned.
\<close>

definition CloneRepo ::
  "env \<Rightarrow> Userinfo option \<Rightarrow> string \<Rightarrow> world \<Rightarrow> string \<times> (error + Repository) \<times> world" where
  "CloneRepo E userInfo gitUrl w =
     (case GitCmdCheck E of
        Some err \<Rightarrow> ([], Inl err, w)
      | None \<Rightarrow>
          (case TempDir_random E (fs w) of
             Inl err \<Rightarrow> ([], Inl (ErrorsNew err), w)
           | Inr rnd \<Rightarrow>
               (let clonePath = filepath_Join (os_TempDir E) (''trufflehog'' @ rnd);
                    w1 = w\<lparr>fs := insert clonePath (fs w),
                           calls := calls w @ [MkdirTemp clonePath]\<rparr>
                in case url_Parse E gitUrl of
                     Inl err \<Rightarrow>
                       (let err' = WrapPrefix err ''could not parse url''
                        in (clonePath, Inl err', CleanOnError (Some err') clonePath w1))
                   | Inr cloneURL \<Rightarrow>
                       (let cloneCmd = URL_String E (cloneURL\<lparr>User := userInfo\<rparr>);
                            w2 = w1\<lparr>fs := git_clone E cloneCmd clonePath (fs w1)\<rparr>;
                            w3 = w2\<lparr>calls := calls w2 @ [PlainOpen_call clonePath]\<rparr>
                        in case PlainOpen E (fs w3) clonePath of
                             Inl err \<Rightarrow>
                               (let err' = WrapPrefix err ''could not open repo''
                                in (clonePath, Inl err', CleanOnError (Some err') clonePath w3))
                           | Inr repo \<Rightarrow>
                               (clonePath, Inr repo, CleanOnError None clonePath w3)))))"

definition CloneRepoUsingToken ::
  "env \<Rightarrow> string \<Rightarrow> string \<Rightarrow> string \<Rightarrow> world \<Rightarrow> string \<times> (error + Repository) \<times> world" where
  "CloneRepoUsingToken E token gitUrl user w =
     CloneRepo E (Some \<lparr>username = user, password = Some token\<rparr>) gitUrl w"

definition CloneRepoUsingUnauthenticated ::
  "env \<Rightarrow> string \<Rightarrow> world \<Rightarrow> string \<times> (error + Repository) \<times> world" where
  "CloneRepoUsingUnauthenticated E url w = CloneRepo E None url w"

definition RepoFromPath :: "env \<Rightarrow> string \<Rightarrow> world \<Rightarrow> (error + Repository) \<times> world" where
  "RepoFromPath E path w =
     (PlainOpen E (fs w) path, w\<lparr>calls := calls w @ [PlainOpen_call path]\<rparr>)"

text \<open>The call of \<open>ScanRepo\<close> from \<open>Chunks\<close>: its chunks go to the channel.\<close>

definition run_ScanRepo ::
  "env \<Rightarrow> Git \<Rightarrow> Repository \<Rightarrow> string \<Rightarrow> world \<Rightarrow> error option \<times> world" where
  "run_ScanRepo E s repo path w =
     (case ScanRepo E s repo path (NewScanOptions E) of
        (sent, err) \<Rightarrow>
          (err, w\<lparr>calls := calls w @ [ScanRepo_call path],
                  chunksChan := chunksChan w @ sent\<rparr>))"

datatype Credential = BasicAuth string string | Unauthenticated | NoCredential

record Conn =
  Credential :: Credential
  Repositories :: "string list"
  Directories :: "string list"

record Source =
  name :: string
  sourceId :: int
  jobId :: int
  Source_verify :: bool
  git :: Git
  conn :: Conn

text \<open>
  \<open>Init\<close> stores its arguments and the \<open>Git\<close> value made from them. The connection
  is given unmarshalled: the error of unmarshalling is wrapped and dropped by the code.
\<close>

definition Init :: "env \<Rightarrow> string \<Rightarrow> int \<Rightarrow> int \<Rightarrow> bool \<Rightarrow> Conn \<Rightarrow> Source" where
  "Init E name' jobId' sourceId' verify' conn' =
     \<lparr>name = name', sourceId = sourceId', jobId = jobId', Source_verify = verify',
      git = Init_git E name' jobId' sourceId' verify', conn = conn'\<rparr>"

text \<open>
  The two loops over \<open>Repositories\<close> differ in the clone function only, which is the
  argument \<open>clone\<close>. Each loop returns the paths whose removal it deferred, in the
  order of the \<open>defer\<close> statements, the error it returned from \<open>Chunks\<close> with
  (\<open>None\<close> when it ran to its end), and the world. Progress reports are left out.
\<close>

fun Chunks_clone_loop ::
  "env \<Rightarrow> Git \<Rightarrow> (string \<Rightarrow> world \<Rightarrow> string \<times> (error + Repository) \<times> world) \<Rightarrow>
   string list \<Rightarrow> world \<Rightarrow> string list \<times> error option \<times> world" where
  "Chunks_clone_loop E s clone [] w = ([], None, w)"
| "Chunks_clone_loop E s clone (repoURI # rest) w =
     (if length repoURI = 0 then Chunks_clone_loop E s clone rest w
      else
        (case clone repoURI w of
           (path, Inl err, w1) \<Rightarrow> ([path], Some err, w1)
         | (path, Inr repo, w1) \<Rightarrow>
             (case run_ScanRepo E s repo path w1 of
                (Some err, w2) \<Rightarrow> ([path], Some err, w2)
              | (None, w2) \<Rightarrow>
                  (case Chunks_clone_loop E s clone rest w2 of
                     (deferred, r, w3) \<Rightarrow> (path # deferred, r, w3)))))"

fun Chunks_dirs_loop ::
  "env \<Rightarrow> Git \<Rightarrow> string list \<Rightarrow> world \<Rightarrow> string list \<times> error option \<times> world" where
  "Chunks_dirs_loop E s [] w = ([], None, w)"
| "Chunks_dirs_loop E s (u # rest) w =
     (if length u = 0 then Chunks_dirs_loop E s rest w
      else if \<not> suffix ''git'' u
      then (case RepoFromPath E u w of
              (Inl err, w1) \<Rightarrow> ([], Some err, w1)
            | (Inr repo, w1) \<Rightarrow>
                (let deferred' =
                       (if prefix (filepath_Join (os_TempDir E) ''trufflehog'') u then [u] else [])
                 in case run_ScanRepo E s repo u w1 of
                      (Some err, w2) \<Rightarrow> (deferred', Some err, w2)
                    | (None, w2) \<Rightarrow>
                        (case Chunks_dirs_loop E s rest w2 of
                           (deferred, r, w3) \<Rightarrow> (deferred' @ deferred, r, w3))))
      else Chunks_dirs_loop E s rest w)"

text \<open>The deferred removals run when \<open>Chunks\<close> returns, the last deferred first.\<close>

definition run_deferred :: "string list \<Rightarrow> world \<Rightarrow> world" where
  "run_deferred deferred w = fold os_RemoveAll (rev deferred) w"

definition Chunks :: "env \<Rightarrow> Source \<Rightarrow> world \<Rightarrow> error option \<times> world" where
  "Chunks E s w =
     (case (case Credential (conn s) of
              BasicAuth user token \<Rightarrow>
                Chunks_clone_loop E (git s)
                  (\<lambda>repoURI. CloneRepoUsingToken E token repoURI user) (Repositories (conn s)) w
            | Unauthenticated \<Rightarrow>
                Chunks_clone_loop E (git s)
                  (CloneRepoUsingUnauthenticated E) (Repositories (conn s)) w
            | NoCredential \<Rightarrow> ([], Some ErrInvalidConnectionType, w)) of
        (deferred, Some err, w1) \<Rightarrow> (Some err, run_deferred deferred w1)
      | (deferred, None, w1) \<Rightarrow>
          (case Chunks_dirs_loop E (git s) (Directories (conn s)) w1 of
             (deferred', r, w2) \<Rightarrow> (r, run_deferred (deferred @ deferred') w2)))"

section \<open>Reference resolver\<close>

text \<open>
  \<^verbatim>\<open>repo.ResolveRevision\<close> belongs to go-git; it is a parameter \<open>resolve\<close>
  from the revision name to an error or a hash. The model returns, next to the result,
  the revisions it asked the repository for, in the order of the calls.
\<close>

definition revisionPrefixes :: "string list" where
  "revisionPrefixes = ['''', ''refs/heads/'', ''refs/remotes/origin/'']"

fun TryAdditionalBaseRefs_loop ::
  "(string \<Rightarrow> error + hash) \<Rightarrow> string \<Rightarrow> string list \<Rightarrow> string list \<times> (error + hash)" where
  "TryAdditionalBaseRefs_loop resolve base [] = ([], Inl (ErrNoBaseRefs base))"
| "TryAdditionalBaseRefs_loop resolve base (pfx # rest) =
     (case resolve (pfx @ base) of
        Inl err \<Rightarrow>
          if err = ErrReferenceNotFound
          then (let (tried, r) = TryAdditionalBaseRefs_loop resolve base rest
                in ((pfx @ base) # tried, r))
          else ([pfx @ base], Inl err)
      | Inr outHash \<Rightarrow> ([pfx @ base], Inr outHash))"

definition TryAdditionalBaseRefs ::
  "(string \<Rightarrow> error + hash) \<Rightarrow> string \<Rightarrow> string list \<times> (error + hash)" where
  "TryAdditionalBaseRefs resolve base = TryAdditionalBaseRefs_loop resolve base revisionPrefixes"

section \<open>A fragment of Go's \<open>net/url\<close>, for concrete runs\<close>

text \<open>
  The theorems below take \<^verbatim>\<open>url.Parse\<close> and \<^verbatim>\<open>URL.String\<close> from the environment.
  For runs on concrete URLs this section follows the standard library on raw URLs made
  of letters, digits and the bytes \<open>- . _ ~ / : @ +\<close>, where nothing is escaped and
  there is no query and no fragment. \<open>go_url_Parse\<close> is \<open>None\<close> outside this fragment,
  and for a scheme followed by a path with one leading slash, whose rendering differs
  between versions of the library.
\<close>

definition isAlpha :: "char \<Rightarrow> bool" where
  "isAlpha c = (c \<in> set ''abcdefghijklmnopqrstuvwxyzABCDEFGHIJKLMNOPQRSTUVWXYZ'')"

definition isDigit :: "char \<Rightarrow> bool" where
  "isDigit c = (c \<in> set ''0123456789'')"

definition url_byte :: "char \<Rightarrow> bool" where
  "url_byte c = (isAlpha c \<or> isDigit c \<or> c \<in> set ''-._~/:@+'')"

definition ToLower_byte :: "char \<Rightarrow> char" where
  "ToLower_byte c =
     (case map_of (zip ''ABCDEFGHIJKLMNOPQRSTUVWXYZ'' ''abcdefghijklmnopqrstuvwxyz'') c of
        None \<Rightarrow> c | Some l \<Rightarrow> l)"

fun getScheme_loop :: "nat \<Rightarrow> string \<Rightarrow> string \<Rightarrow> error + string \<times> string" where
  "getScheme_loop i rawURL [] = Inr ([], rawURL)"
| "getScheme_loop i rawURL (c # cs) =
     (if isAlpha c then getScheme_loop (Suc i) rawURL cs
      else if isDigit c \<or> c = CHR ''+'' \<or> c = CHR ''-'' \<or> c = CHR ''.''
      then (if i = 0 then Inr ([], rawURL) else getScheme_loop (Suc i) rawURL cs)
      else if c = CHR '':''
      then (if i = 0 then Inl (ExternalError ''missing protocol scheme'')
            else Inr (take i rawURL, drop (Suc i) rawURL))
      else Inr ([], rawURL))"

definition getScheme :: "string \<Rightarrow> error + string \<times> string" where
  "getScheme rawURL = getScheme_loop 0 rawURL rawURL"

definition parseHost :: "string \<Rightarrow> error + string" where
  "parseHost host =
     (if CHR '':'' \<in> set host
         \<and> \<not> list_all isDigit (rev (takeWhile (\<lambda>c. c \<noteq> CHR '':'') (rev host)))
      then Inl (ExternalError ''invalid port after host'')
      else Inr host)"

definition parseAuthority :: "string \<Rightarrow> error + Userinfo option \<times> string" where
  "parseAuthority authority =
     (let host = rev (takeWhile (\<lambda>c. c \<noteq> CHR ''@'') (rev authority))
      in case parseHost host of
           Inl err \<Rightarrow> Inl err
         | Inr host' \<Rightarrow>
             if CHR ''@'' \<notin> set authority then Inr (None, host')
             else
               (let userinfo = take (length authority - length host - 1) authority
                in if CHR '':'' \<notin> set userinfo
                   then Inr (Some \<lparr>username = userinfo, password = None\<rparr>, host')
                   else Inr (Some \<lparr>username = takeWhile (\<lambda>c. c \<noteq> CHR '':'') userinfo,
                                    password = Some (tl (dropWhile (\<lambda>c. c \<noteq> CHR '':'') userinfo))\<rparr>,
                             host')))"

definition go_url_Parse :: "string \<Rightarrow> (error + URL) option" where
  "go_url_Parse rawURL =
     (if \<not> list_all url_byte rawURL then None
      else
        (case getScheme rawURL of
           Inl err \<Rightarrow> Some (Inl err)
         | Inr (scheme, rest) \<Rightarrow>
             (let scheme' = map ToLower_byte scheme
              in if \<not> prefix ''/'' rest
                 then (if scheme' \<noteq> []
                       then Some (Inr \<lparr>Scheme = scheme', Opaque = rest, User = None,
                                       Host = [], Path = []\<rparr>)
                       else if CHR '':'' \<in> set (takeWhile (\<lambda>c. c \<noteq> CHR ''/'') rest)
                       then Some (Inl (ExternalError
                                         ''first path segment in URL cannot contain colon''))
                       else Some (Inr \<lparr>Scheme = [], Opaque = [], User = None,
                                       Host = [], Path = rest\<rparr>))
                 else if (scheme' \<noteq> [] \<or> \<not> prefix ''///'' rest) \<and> prefix ''//'' rest
                 then (let authority = takeWhile (\<lambda>c. c \<noteq> CHR ''/'') (drop 2 rest);
                           rest' = dropWhile (\<lambda>c. c \<noteq> CHR ''/'') (drop 2 rest)
                       in case parseAuthority authority of
                            Inl err \<Rightarrow> Some (Inl err)
                          | Inr (user, host) \<Rightarrow>
                              Some (Inr \<lparr>Scheme = scheme', Opaque = [], User = user,
                                         Host = host, Path = rest'\<rparr>))
                 else if scheme' \<noteq> [] then None
                 else Some (Inr \<lparr>Scheme = [], Opaque = [], User = None,
                                 Host = [], Path = rest\<rparr>))))"

text \<open>
  \<^verbatim>\<open>Userinfo.String\<close> escapes the bytes \<open>@ / :\<close> of a user name and of a password.
\<close>

definition escape_UserPassword :: "string \<Rightarrow> string" where
  "escape_UserPassword str =
     concat (map (\<lambda>c. if c = CHR ''@'' then ''%40'' else if c = CHR ''/'' then ''%2F''
                       else if c = CHR '':'' then ''%3A'' else [c]) str)"

definition Userinfo_String :: "Userinfo \<Rightarrow> string" where
  "Userinfo_String ui =
     escape_UserPassword (username ui)
     @ (case password ui of None \<Rightarrow> [] | Some pw \<Rightarrow> '':'' @ escape_UserPassword pw)"

definition go_URL_String :: "URL \<Rightarrow> string" where
  "go_URL_String u =
     (let buf = (if Scheme u \<noteq> [] then Scheme u @ '':'' else [])
      in if Opaque u \<noteq> [] then buf @ Opaque u
         else
           (let buf' =
                  buf
                  @ (if Scheme u \<noteq> [] \<or> Host u \<noteq> [] \<or> User u \<noteq> None
                     then (if Host u \<noteq> [] \<or> Path u \<noteq> [] \<or> User u \<noteq> None then ''//'' else [])
                          @ (case User u of None \<Rightarrow> [] | Some ui \<Rightarrow> Userinfo_String ui @ ''@'')
                          @ Host u
                     else [])
                  @ (if Path u \<noteq> [] \<and> \<not> prefix ''/'' (Path u) \<and> Host u \<noteq> [] then ''/'' else [])
            in buf'
               @ (if buf' = [] \<and> CHR '':'' \<in> set (takeWhile (\<lambda>c. c \<noteq> CHR ''/'') (Path u))
                  then ''./'' else [])
               @ Path u))"

section \<open>Notions used in the statements\<close>

text \<open>
  The records that the loop of \<open>ScanCommits\<close> reaches: those before the depth limit,
  when there is one, and before the first record of the base commit, when a base is set.
  The processed records are the reached ones that pass the filter and have a name.
\<close>

definition visited_records :: "ScanOptions \<Rightarrow> File list \<Rightarrow> File list" where
  "visited_records scanOptions files =
     (let within = (if MaxDepth scanOptions > 0 then take (nat (MaxDepth scanOptions)) files
                    else files)
      in if BaseHash scanOptions = [] then within
         else takeWhile (\<lambda>f. map_option SHA (PatchHeader f) \<noteq> Some (BaseHash scanOptions)) within)"

definition processed_records :: "ScanOptions \<Rightarrow> File list \<Rightarrow> File list" where
  "processed_records scanOptions files =
     filter (\<lambda>f. Filter_Pass scanOptions (NewName f) \<and> NewName f \<noteq> [])
       (visited_records scanOptions files)"

text \<open>
  The text that the specification gives for a fragment: its added lines, each with its
  newlines replaced by spaces and followed by one newline.
\<close>

definition addedText :: "env \<Rightarrow> TextFragment \<Rightarrow> string" where
  "addedText E frag =
     concat (map (\<lambda>line. ReplaceAll_byte (Line_String E line) (CHR 0x0A) (CHR '' '') @ [CHR 0x0A])
                 (filter (\<lambda>line. Op line = OpAdd) (Lines frag)))"

section \<open>A concrete environment and repository\<close>

text \<open>
  An environment for concrete runs: \<^verbatim>\<open>sanitizer.UTF8\<close> leaves a valid string as it is,
  a line is rendered as the marker of its operation followed by its text, a time by a
  fixed string, URLs go through the fragment of \<open>net/url\<close> above, and the log holds
  one record with one fragment whose only line is a context line.
\<close>

definition example_fragment :: TextFragment where
  "example_fragment = \<lparr>NewPosition = 7, Lines = [\<lparr>Op = OpContext, LineText = ''unchanged''\<rparr>]\<rparr>"

definition example_file :: File where
  "example_file =
     \<lparr>NewName = ''config.txt'',
      PatchHeader = Some \<lparr>SHA = ''4b825dc'',
                          Author = Some \<lparr>IdentityName = ''A'', IdentityEmail = ''a@example.org''\<rparr>,
                          AuthorDate = 0\<rparr>,
      TextFragments = [example_fragment]\<rparr>"

definition example_worktree :: Worktree where
  "example_worktree =
     \<lparr>Status = Inr [''config.txt''],
      Filesystem_Open = (\<lambda>fh. Inr (Inr ''secret=XYZ''))\<rparr>"

definition example_repo :: Repository where
  "example_repo =
     \<lparr>Remote_origin = Inr [''git@example.org:org/repo.git''],
      Head = Inr ''4b825dc'',
      Worktree = Inr example_worktree\<rparr>"

definition example_options :: ScanOptions where
  "example_options = \<lparr>Filter_Pass = (\<lambda>path. True), BaseHash = [], HeadHash = [], MaxDepth = 0\<rparr>"

definition example_env :: env where
  "example_env =
     \<lparr>UTF8 = (\<lambda>str. str),
      Line_String = (\<lambda>line. (case Op line of OpContext \<Rightarrow> '' '' | OpDelete \<Rightarrow> ''-''
                                     | OpAdd \<Rightarrow> ''+'') @ LineText line),
      Time_String = (\<lambda>t. ''1970-01-01 00:00:00 +0000 UTC''),
      url_Parse = (\<lambda>u. case go_url_Parse u of
                          None \<Rightarrow> Inl (ExternalError ''outside the modelled fragment'')
                        | Some r \<Rightarrow> r),
      URL_String = go_URL_String,
      git_in_PATH = True,
      GitLog = (\<lambda>path head. Inr [example_file]),
      time_Now = (\<lambda>fh. 0),
      os_TempDir = ''/tmp'',
      TempDir_random = (\<lambda>disk. Inr ''123''),
      git_clone = (\<lambda>cloneURL path disk. insert (path @ ''/.git'') disk),
      PlainOpen = (\<lambda>disk path. if path @ ''/.git'' \<in> disk then Inr example_repo
                                 else Inl (ExternalError ''repository does not exist'')),
      NewScanOptions = example_options\<rparr>"

definition example_git :: Git where
  "example_git = Init_git example_env ''example'' 1 2 False"

text \<open>
  A log of three records: the first is the second under a name that the filter of the
  options below rejects, the second adds a line, removes one and keeps one, the third
  is the record of the first environment.
\<close>

definition example_fragment_add :: TextFragment where
  "example_fragment_add =
     \<lparr>NewPosition = 3,
      Lines = [\<lparr>Op = OpDelete, LineText = ''secret=OLD''\<rparr>,
               \<lparr>Op = OpAdd, LineText = ''secret=ABC'' @ [CHR 0x0A]\<rparr>,
               \<lparr>Op = OpContext, LineText = ''unchanged''\<rparr>]\<rparr>"

definition example_file_add :: File where
  "example_file_add =
     \<lparr>NewName = ''config.txt'',
      PatchHeader = Some \<lparr>SHA = ''9fceb02'',
                          Author = Some \<lparr>IdentityName = ''A'', IdentityEmail = ''a@example.org''\<rparr>,
                          AuthorDate = 0\<rparr>,
      TextFragments = [example_fragment_add]\<rparr>"

definition example_env_history :: env where
  "example_env_history =
     example_env\<lparr>GitLog := (\<lambda>path head.
        Inr [example_file_add\<lparr>NewName := ''skip.bin''\<rparr>, example_file_add, example_file])\<rparr>"

definition example_options_depth :: ScanOptions where
  "example_options_depth =
     \<lparr>Filter_Pass = (\<lambda>path. path \<noteq> ''skip.bin''), BaseHash = [], HeadHash = [], MaxDepth = 1\<rparr>"

definition example_options_base :: ScanOptions where
  "example_options_base =
     \<lparr>Filter_Pass = (\<lambda>path. path \<noteq> ''skip.bin''), BaseHash = ''4b825dc'', HeadHash = [],
      MaxDepth = 0\<rparr>"

text \<open>
  A source with one remote repository and no credentials, an empty disk, and a disk
  with two local repositories for the pass over the directories.
\<close>

definition example_source :: Source where
  "example_source =
     Init example_env ''example'' 1 2 False
       \<lparr>Credential = Unauthenticated, Repositories = [''https://host/repo.git''],
        Directories = []\<rparr>"

definition example_world :: world where
  "example_world = \<lparr>fs = {}, calls = [], chunksChan = []\<rparr>"

definition example_world_dirs :: world where
  "example_world_dirs =
     \<lparr>fs = {''/srv/work/.git'', ''/srv/repo.git/.git''}, calls = [], chunksChan = []\<rparr>"

section \<open>Evaluation of the examples\<close>

lemmas example_defs =
  example_env_def example_git_def example_repo_def example_options_def example_file_def
  example_fragment_def example_worktree_def Init_git_def NewGit_def Init_sourceMetadataFunc_def
  example_fragment_add_def example_file_add_def example_env_history_def
  example_options_depth_def example_options_base_def

lemmas scan_defs =
  ScanCommits_def GitCmdCheck_def stripPassword_def file_chunks_def fragment_chunk_def
  ReplaceAll_byte_def ScanUnstaged_def

lemmas url_defs =
  go_url_Parse_def getScheme_def url_byte_def isAlpha_def isDigit_def ToLower_byte_def
  parseAuthority_def parseHost_def go_URL_String_def

lemmas chunks_defs =
  Chunks_def CloneRepoUsingUnauthenticated_def CloneRepo_def CleanOnError_def os_RemoveAll_def
  run_deferred_def run_ScanRepo_def RepoFromPath_def filepath_Join_def ScanRepo_def
  example_world_def example_source_def Init_def Let_def

section \<open>The loop of the history walk\<close>

lemma loop_depth_take:
  "0 < MaxDepth opts \<Longrightarrow> 0 \<le> d \<Longrightarrow>
   ScanCommits_loop E s repo opts d files
     = ScanCommits_loop E s repo (opts\<lparr>MaxDepth := 0\<rparr>) d (take (nat (MaxDepth opts - d)) files)"
proof (induction files arbitrary: d)
  case Nil
  then show ?case by simp
next
  case (Cons f rest)
  show ?case
  proof (cases "d \<ge> MaxDepth opts")
    case True
    then show ?thesis using Cons.prems by simp
  next
    case False
    have t: "take (nat (MaxDepth opts - d)) (f # rest) = f # take (nat (MaxDepth opts - (d + 1))) rest"
    proof -
      have "nat (MaxDepth opts - d) = Suc (nat (MaxDepth opts - (d + 1)))"
        using False by simp
      then show ?thesis by simp
    qed
    have ih: "ScanCommits_loop E s repo opts (d + 1) rest
       = ScanCommits_loop E s repo (opts\<lparr>MaxDepth := 0\<rparr>) (d + 1) (take (nat (MaxDepth opts - (d + 1))) rest)"
      using Cons.IH [of "d + 1"] Cons.prems by simp
    show ?thesis
      unfolding t using False Cons.prems ih
      by (auto split: sum.splits list.splits)
  qed
qed

lemma loop_base_takeWhile:
  "BaseHash opts \<noteq> [] \<Longrightarrow>
   ScanCommits_loop E s repo opts d files
     = ScanCommits_loop E s repo opts d
         (takeWhile (\<lambda>f. map_option SHA (PatchHeader f) \<noteq> Some (BaseHash opts)) files)"
proof (induction files arbitrary: d)
  case Nil
  then show ?case by simp
next
  case (Cons f rest)
  show ?case
    using Cons.prems Cons.IH [of "d + 1"]
    by (auto split: sum.splits list.splits)
qed

lemma loop_no_stop:
  "MaxDepth opts \<le> 0 \<Longrightarrow>
   BaseHash opts = [] \<or>
     (\<forall>f\<in>set files. PatchHeader f \<noteq> None
        \<and> map_option SHA (PatchHeader f) \<noteq> Some (BaseHash opts)) \<Longrightarrow>
   Remote_origin repo = Inr (url # urls) \<Longrightarrow> stripPassword E url = Inr safeRepo \<Longrightarrow>
   ScanCommits_loop E s repo opts d files
     = (concat (map (file_chunks E s safeRepo)
          (filter (\<lambda>f. Filter_Pass opts (NewName f) \<and> NewName f \<noteq> []) files)), None)"
  by (induction files arbitrary: d) auto

lemma loop_chunks_from:
  "c \<in> set (fst (ScanCommits_loop E s repo opts d files)) \<Longrightarrow>
   \<exists>f\<in>set files. \<exists>safeRepo. c \<in> set (file_chunks E s safeRepo f)"
proof (induction files arbitrary: d)
  case Nil
  then show ?case by simp
next
  case (Cons f rest)
  from Cons.prems Cons.IH [of "d + 1"] show ?case
    by (auto split: if_splits sum.splits list.splits prod.splits)
qed

lemma loop_visited:
  assumes remote: "Remote_origin repo = Inr (url # urls)" "stripPassword E url = Inr safeRepo"
    and headers: "BaseHash opts \<noteq> [] \<longrightarrow> (\<forall>f\<in>set files. PatchHeader f \<noteq> None)"
  shows "ScanCommits_loop E s repo opts 0 files
     = (concat (map (file_chunks E s safeRepo) (processed_records opts files)), None)"
proof -
  define P :: "File \<Rightarrow> bool" where "P = (\<lambda>f. map_option SHA (PatchHeader f) \<noteq> Some (BaseHash opts))"
  define within where
    "within = (if MaxDepth opts > 0 then take (nat (MaxDepth opts)) files else files)"
  define o' where "o' = (if MaxDepth opts > 0 then opts\<lparr>MaxDepth := 0\<rparr> else opts)"
  have o': "MaxDepth o' \<le> 0" "BaseHash o' = BaseHash opts" "Filter_Pass o' = Filter_Pass opts"
    by (auto simp: o'_def)
  have sub: "set within \<subseteq> set files"
    by (auto simp: within_def dest: in_set_takeD)
  have a: "ScanCommits_loop E s repo opts 0 files = ScanCommits_loop E s repo o' 0 within"
    using loop_depth_take [of opts 0 E s repo files] by (simp add: o'_def within_def)
  have b: "ScanCommits_loop E s repo o' 0 within
     = (concat (map (file_chunks E s safeRepo)
          (filter (\<lambda>f. Filter_Pass opts (NewName f) \<and> NewName f \<noteq> [])
             (if BaseHash opts = [] then within else takeWhile P within))), None)"
  proof (cases "BaseHash opts = []")
    case True
    then show ?thesis
      using loop_no_stop [of o' within repo url urls E safeRepo s 0] o' remote by simp
  next
    case False
    have all: "\<forall>f\<in>set (takeWhile P within). PatchHeader f \<noteq> None
        \<and> map_option SHA (PatchHeader f) \<noteq> Some (BaseHash o')"
    proof
      fix f assume f: "f \<in> set (takeWhile P within)"
      then have "f \<in> set files" using sub by (auto dest: set_takeWhileD)
      moreover have "P f" using f by (auto dest: set_takeWhileD)
      ultimately show "PatchHeader f \<noteq> None \<and> map_option SHA (PatchHeader f) \<noteq> Some (BaseHash o')"
        using headers False o' by (simp add: P_def)
    qed
    have "ScanCommits_loop E s repo o' 0 within
        = ScanCommits_loop E s repo o' 0 (takeWhile P within)"
      using loop_base_takeWhile [of o' E s repo 0 within] False o' by (simp add: P_def)
    also have "\<dots> = (concat (map (file_chunks E s safeRepo)
          (filter (\<lambda>f. Filter_Pass o' (NewName f) \<and> NewName f \<noteq> []) (takeWhile P within))), None)"
      using loop_no_stop [of o' "takeWhile P within" repo url urls E safeRepo s 0] o' remote all
      by simp
    finally show ?thesis using False o' by simp
  qed
  show ?thesis
    unfolding a b by (simp add: processed_records_def visited_records_def within_def P_def Let_def)
qed

lemma file_chunks_length: "length (file_chunks E s safeRepo f) = length (TextFragments f)"
  by (simp add: file_chunks_def Let_def)

lemma newLines_loop_addedText: "newLines_loop E (Lines frag) = addedText E frag"
proof -
  have "newLines_loop E ls =
     concat (map (\<lambda>line. ReplaceAll_byte (Line_String E line) (CHR 0x0A) (CHR '' '') @ [CHR 0x0A])
                 (filter (\<lambda>line. Op line = OpAdd) ls))" for ls
    by (induction ls) auto
  then show ?thesis by (simp add: addedText_def)
qed

lemma file_chunks_Data:
  "map Data (file_chunks E s safeRepo f) = map (addedText E) (TextFragments f)"
  by (simp add: file_chunks_def Let_def fragment_chunk_def newLines_loop_addedText comp_def)

lemma addedText_newlines:
  "length (filter (\<lambda>c. c = CHR 0x0A) (addedText E frag))
     = length (filter (\<lambda>line. Op line = OpAdd) (Lines frag))"
proof -
  have "length (filter (\<lambda>c. c = CHR 0x0A)
           (concat (map (\<lambda>line. ReplaceAll_byte (Line_String E line) (CHR 0x0A) (CHR '' '') @ [CHR 0x0A]) ls)))
        = length ls" for ls
    by (induction ls) (auto simp: ReplaceAll_byte_def filter_map comp_def)
  then show ?thesis by (simp add: addedText_def)
qed

section \<open>Units of the history walk\<close>

text \<open>
  C1, as the code has it. The claim says that a fragment without an added line gives no
  unit; the loop over the fragments has no such test. When the walk meets no error,
  what it sends is, for each processed record in order, one chunk for each fragment of
  the record in order, with the added text of the fragment as data; for a fragment
  without an added line that text is empty, and the chunk is sent all the same.
\<close>

theorem ScanCommits_one_chunk_per_fragment:
  assumes "GitCmdCheck E = None" and "GitLog E path (HeadHash opts) = Inr files"
    and "Remote_origin repo = Inr (url # urls)" and "stripPassword E url = Inr safeRepo"
    and "BaseHash opts \<noteq> [] \<longrightarrow> (\<forall>f\<in>set files. PatchHeader f \<noteq> None)"
  shows "ScanCommits E s repo path opts
           = (concat (map (file_chunks E s safeRepo) (processed_records opts files)), None)
         \<and> (\<forall>f. map Data (file_chunks E s safeRepo f) = map (addedText E) (TextFragments f))
         \<and> (\<forall>frag. filter (\<lambda>line. Op line = OpAdd) (Lines frag) = [] \<longrightarrow> addedText E frag = [])"
  using assms loop_visited [of repo url urls E safeRepo opts files s]
  by (simp add: ScanCommits_def file_chunks_Data addedText_def)

theorem ScanCommits_one_chunk_per_fragment_witness:
  "ScanCommits example_env example_git example_repo ''/repo'' example_options
     = (concat (map (file_chunks example_env example_git ''git@example.org:org/repo.git'')
                    (processed_records example_options [example_file])), None)
   \<and> map Data (file_chunks example_env example_git ''git@example.org:org/repo.git'' example_file)
       = [[]]"
  using ScanCommits_one_chunk_per_fragment [of example_env "''/repo''" example_options
      "[example_file]" example_repo "''git@example.org:org/repo.git''" "[]"
      "''git@example.org:org/repo.git''" example_git]
  by (simp add: example_defs GitCmdCheck_def stripPassword_def addedText_def)

text \<open>
  C1 as stated fails: the log of the example holds one record with one fragment, whose
  only line is a context line, and the walk sends one chunk, with empty data.
\<close>

theorem zero_add_fragment_emits_chunk:
  "GitLog example_env ''/repo'' (HeadHash example_options) = Inr [example_file]
   \<and> TextFragments example_file = [example_fragment]
   \<and> filter (\<lambda>line. Op line = OpAdd) (Lines example_fragment) = []
   \<and> map Data (fst (ScanCommits example_env example_git example_repo ''/repo'' example_options))
       = [[]]"
  by (simp add: example_defs scan_defs)



section \<open>Bounds of the history walk\<close>

text \<open>
  C4. With \<open>MaxDepth = N > 0\<close> the walk is the walk without a depth limit over the
  first \<open>N\<close> records of the log, whatever the filter does with them: a record that the
  filter rejects, or that has no name, is one of the \<open>N\<close>. So at most \<open>N\<close> records
  are visited, and every chunk comes from one of them. The records of the log are file
  diffs, each of one commit, so no more than \<open>N\<close> commits are visited.
\<close>

theorem ScanCommits_MaxDepth:
  assumes "GitCmdCheck E = None" and "GitLog E path (HeadHash opts) = Inr files"
    and "0 < MaxDepth opts"
  shows "ScanCommits E s repo path opts
           = ScanCommits_loop E s repo (opts\<lparr>MaxDepth := 0\<rparr>) 0 (take (nat (MaxDepth opts)) files)
         \<and> length (take (nat (MaxDepth opts)) files) \<le> nat (MaxDepth opts)
         \<and> (\<forall>c\<in>set (fst (ScanCommits E s repo path opts)).
               \<exists>f\<in>set (take (nat (MaxDepth opts)) files). \<exists>safeRepo.
                 c \<in> set (file_chunks E s safeRepo f))"
proof -
  have eq: "ScanCommits E s repo path opts
      = ScanCommits_loop E s repo (opts\<lparr>MaxDepth := 0\<rparr>) 0 (take (nat (MaxDepth opts)) files)"
    using assms loop_depth_take [of opts 0 E s repo files] by (simp add: ScanCommits_def)
  show ?thesis
    unfolding eq using loop_chunks_from by fastforce
qed

theorem ScanCommits_MaxDepth_witness:
  "MaxDepth example_options_depth = 1
   \<and> map NewName [example_file_add\<lparr>NewName := ''skip.bin''\<rparr>, example_file_add, example_file]
       = [''skip.bin'', ''config.txt'', ''config.txt'']
   \<and> ScanCommits example_env_history example_git example_repo ''/repo'' example_options_depth
       = ([], None)"
  using ScanCommits_MaxDepth [of example_env_history "''/repo''" example_options_depth
      "[example_file_add\<lparr>NewName := ''skip.bin''\<rparr>, example_file_add, example_file]"
      example_git example_repo]
  by (simp add: example_defs GitCmdCheck_def)

text \<open>
  C7. With a base hash \<open>H\<close> the walk is the walk over the records before the
  first one whose SHA is \<open>H\<close>: that record and all after it are not processed, and
  every chunk comes from a record whose SHA is not \<open>H\<close>.
\<close>

theorem ScanCommits_BaseHash:
  assumes "GitCmdCheck E = None" and "GitLog E path (HeadHash opts) = Inr files"
    and "BaseHash opts \<noteq> []"
  shows "ScanCommits E s repo path opts
           = ScanCommits_loop E s repo opts 0
               (takeWhile (\<lambda>f. map_option SHA (PatchHeader f) \<noteq> Some (BaseHash opts)) files)
         \<and> (\<forall>c\<in>set (fst (ScanCommits E s repo path opts)).
               \<exists>f\<in>set files. \<exists>safeRepo.
                 c \<in> set (file_chunks E s safeRepo f)
                 \<and> map_option SHA (PatchHeader f) \<noteq> Some (BaseHash opts))"
proof -
  have eq: "ScanCommits E s repo path opts
      = ScanCommits_loop E s repo opts 0
          (takeWhile (\<lambda>f. map_option SHA (PatchHeader f) \<noteq> Some (BaseHash opts)) files)"
    using assms loop_base_takeWhile [of opts E s repo 0 files] by (simp add: ScanCommits_def)
  show ?thesis
    unfolding eq using loop_chunks_from [of _ E s repo opts 0]
    by (fastforce dest: set_takeWhileD)
qed

theorem ScanCommits_BaseHash_witness:
  "BaseHash example_options_base = ''4b825dc''
   \<and> map (map_option SHA \<circ> PatchHeader)
         [example_file_add\<lparr>NewName := ''skip.bin''\<rparr>, example_file_add, example_file]
       = [Some ''9fceb02'', Some ''9fceb02'', Some ''4b825dc'']
   \<and> map (Commit \<circ> SourceMetadata)
         (fst (ScanCommits example_env_history example_git example_repo ''/repo''
                 example_options_base))
       = [''9fceb02'']"
  using ScanCommits_BaseHash [of example_env_history "''/repo''" example_options_base
      "[example_file_add\<lparr>NewName := ''skip.bin''\<rparr>, example_file_add, example_file]"
      example_git example_repo]
  by (simp add: example_defs scan_defs)

section \<open>Metadata of the chunks\<close>

text \<open>
  C2, at a concrete scan. The field \<open>sourceMetadataFunc\<close> and both callers take the
  timestamp as the fourth argument and the repository as the fifth; the function that
  \<open>Init\<close> passes names them the other way round. In the history chunk and in the
  working-tree chunk of the example the repository field holds the time and the
  timestamp field holds the sanitized URL.
\<close>

theorem metadata_repository_timestamp_swapped:
  "map (\<lambda>c. (Commit (SourceMetadata c), Repository (SourceMetadata c),
              Timestamp (SourceMetadata c)))
     (fst (ScanRepo example_env example_git example_repo ''/repo'' example_options))
   = [(''4b825dc'', ''1970-01-01 00:00:00 +0000 UTC'', ''git@example.org:org/repo.git''),
      (''unstaged'', ''1970-01-01 00:00:00 +0000 UTC'', ''git@example.org:org/repo.git'')]"
  by (simp add: example_defs scan_defs ScanRepo_def)

section \<open>Working-tree scan and the head\<close>

text \<open>
  C3, as the code has it. The working-tree scan sends chunks only when the head
  resolves or fails with reference-not-found. When the head fails with another error
  (the origin remote being resolved and sanitized), the scan sends nothing and returns
  nil: the error is not returned.
\<close>

theorem ScanUnstaged_head_error:
  "(fst (ScanUnstaged E s repo opts) \<noteq> []
      \<longrightarrow> (\<exists>h. Head repo = Inr h) \<or> Head repo = Inl ErrReferenceNotFound)
   \<and> (\<forall>err url urls safeRepo.
         Head repo = Inl err \<and> err \<noteq> ErrReferenceNotFound
         \<and> Remote_origin repo = Inr (url # urls) \<and> stripPassword E url = Inr safeRepo
         \<longrightarrow> ScanUnstaged E s repo opts = ([], None))"
  by (auto simp: ScanUnstaged_def split: sum.splits list.splits)

theorem ScanUnstaged_head_error_witness:
  "fst (ScanUnstaged example_env example_git example_repo example_options) \<noteq> []
   \<and> Head example_repo = Inr ''4b825dc''
   \<and> ScanUnstaged example_env example_git
        (example_repo\<lparr>Head := Inl (ExternalError ''object not found'')\<rparr>) example_options
       = ([], None)"
  using ScanUnstaged_head_error [of example_env example_git example_repo example_options]
    ScanUnstaged_head_error [of example_env example_git
      "example_repo\<lparr>Head := Inl (ExternalError ''object not found'')\<rparr>" example_options]
  by (simp add: example_defs scan_defs)

text \<open>
  C3 as stated fails: with a head that fails with an error other than
  reference-not-found, the scan of the example repository returns nil.
\<close>

theorem head_error_returns_nil:
  "Head (example_repo\<lparr>Head := Inl (ExternalError ''object not found'')\<rparr>)
     = Inl (ExternalError ''object not found'')
   \<and> ExternalError ''object not found'' \<noteq> ErrReferenceNotFound
   \<and> snd (ScanUnstaged example_env example_git
        (example_repo\<lparr>Head := Inl (ExternalError ''object not found'')\<rparr>) example_options)
       = None"
  by (simp add: example_defs scan_defs)

section \<open>The sanitizer on URLs\<close>




section \<open>Removal of the clone directories\<close>

lemma fs_RemoveAll_self: "p \<noteq> [] \<Longrightarrow> p \<notin> fs (os_RemoveAll p w)"
  by (simp add: os_RemoveAll_def)

lemma fs_RemoveAll_mono: "p \<notin> fs w \<Longrightarrow> p \<notin> fs (os_RemoveAll q w)"
  by (simp add: os_RemoveAll_def)

lemma calls_RemoveAll: "calls (os_RemoveAll q w) = calls w @ [RemoveAll q]"
  by (simp add: os_RemoveAll_def)

lemma fs_fold_RemoveAll_mono: "p \<notin> fs w \<Longrightarrow> p \<notin> fs (fold os_RemoveAll xs w)"
  by (induction xs arbitrary: w) (simp_all add: fs_RemoveAll_mono)

lemma fs_fold_RemoveAll: "p \<in> set xs \<Longrightarrow> p \<noteq> [] \<Longrightarrow> p \<notin> fs (fold os_RemoveAll xs w)"
proof (induction xs arbitrary: w)
  case Nil
  then show ?case by simp
next
  case (Cons x xs)
  show ?case
  proof (cases "p = x")
    case True
    then show ?thesis
      using Cons.prems by (simp add: fs_fold_RemoveAll_mono fs_RemoveAll_self)
  next
    case False
    then show ?thesis using Cons by simp
  qed
qed

lemma MkdirTemp_fold_RemoveAll:
  "MkdirTemp p \<in> set (calls (fold os_RemoveAll xs w)) \<longleftrightarrow> MkdirTemp p \<in> set (calls w)"
  by (induction xs arbitrary: w) (simp_all add: calls_RemoveAll)

lemma run_deferred_removes: "p \<in> set deferred \<Longrightarrow> p \<noteq> [] \<Longrightarrow> p \<notin> fs (run_deferred deferred w)"
  by (simp add: run_deferred_def fs_fold_RemoveAll)

lemma MkdirTemp_run_deferred:
  "MkdirTemp p \<in> set (calls (run_deferred deferred w)) \<longleftrightarrow> MkdirTemp p \<in> set (calls w)"
  by (simp add: run_deferred_def MkdirTemp_fold_RemoveAll)

lemma CloneRepo_MkdirTemp:
  "CloneRepo E userInfo gitUrl w = (path, res, w') \<Longrightarrow> MkdirTemp p \<in> set (calls w') \<Longrightarrow>
   MkdirTemp p \<in> set (calls w) \<or> (p = path \<and> path \<noteq> [])"
  by (auto simp: CloneRepo_def Let_def CleanOnError_def calls_RemoveAll filepath_Join_def
      split: option.splits sum.splits)

lemma CloneRepo_error_removed:
  "CloneRepo E userInfo gitUrl w = (path, Inl err, w') \<Longrightarrow> path \<noteq> [] \<Longrightarrow> path \<notin> fs w'"
  by (auto simp: CloneRepo_def Let_def CleanOnError_def fs_RemoveAll_self
      split: option.splits sum.splits)

lemma run_ScanRepo_MkdirTemp:
  "run_ScanRepo E s repo path w = (r, w') \<Longrightarrow>
   MkdirTemp p \<in> set (calls w') \<longleftrightarrow> MkdirTemp p \<in> set (calls w)"
  by (auto simp: run_ScanRepo_def split: prod.splits)

lemma clone_loop_MkdirTemp:
  "Chunks_clone_loop E s (CloneRepo E userInfo) repos w = (deferred, r, w') \<Longrightarrow>
   MkdirTemp p \<in> set (calls w') \<Longrightarrow>
   MkdirTemp p \<in> set (calls w) \<or> (p \<in> set deferred \<and> p \<noteq> [])"
proof (induction repos arbitrary: w deferred r w')
  case Nil
  then show ?case by simp
next
  case (Cons repoURI rest)
  show ?case
  proof (cases "length repoURI = 0")
    case True
    then show ?thesis using Cons by simp
  next
    case False
    obtain path res w1 where cl: "CloneRepo E userInfo repoURI w = (path, res, w1)"
      by (cases "CloneRepo E userInfo repoURI w") auto
    note mk = CloneRepo_MkdirTemp [OF cl, of p]
    show ?thesis
    proof (cases res)
      case (Inl err)
      then show ?thesis using Cons.prems False cl mk by auto
    next
      case (Inr repo)
      obtain e w2 where sc: "run_ScanRepo E s repo path w1 = (e, w2)"
        by (cases "run_ScanRepo E s repo path w1") auto
      note mk2 = run_ScanRepo_MkdirTemp [OF sc, of p]
      show ?thesis
      proof (cases e)
        case (Some err)
        then show ?thesis using Cons.prems False cl Inr sc mk mk2 by auto
      next
        case None
        obtain d3 r3 w3 where rec: "Chunks_clone_loop E s (CloneRepo E userInfo) rest w2 = (d3, r3, w3)"
          by (cases "Chunks_clone_loop E s (CloneRepo E userInfo) rest w2") auto
        from Cons.IH [OF rec] Cons.prems False cl Inr sc None rec mk mk2
        show ?thesis by auto
      qed
    qed
  qed
qed

lemma RepoFromPath_MkdirTemp:
  "RepoFromPath E u w = (res, w') \<Longrightarrow>
   MkdirTemp p \<in> set (calls w') \<longleftrightarrow> MkdirTemp p \<in> set (calls w)"
  by (auto simp: RepoFromPath_def)

lemma dirs_loop_MkdirTemp:
  "Chunks_dirs_loop E s dirs w = (deferred, r, w') \<Longrightarrow>
   MkdirTemp p \<in> set (calls w') \<longleftrightarrow> MkdirTemp p \<in> set (calls w)"
proof (induction dirs arbitrary: w deferred r w')
  case Nil
  then show ?case by simp
next
  case (Cons u rest)
  show ?case
  proof (cases "length u = 0 \<or> suffix ''git'' u")
    case True
    then show ?thesis using Cons by (auto split: if_splits)
  next
    case False
    obtain res w1 where op: "RepoFromPath E u w = (res, w1)"
      by (cases "RepoFromPath E u w") auto
    note mk = RepoFromPath_MkdirTemp [OF op, of p]
    show ?thesis
    proof (cases res)
      case (Inl err)
      then show ?thesis using Cons.prems False op mk by auto
    next
      case (Inr repo)
      obtain e w2 where sc: "run_ScanRepo E s repo u w1 = (e, w2)"
        by (cases "run_ScanRepo E s repo u w1") auto
      note mk2 = run_ScanRepo_MkdirTemp [OF sc, of p]
      show ?thesis
      proof (cases e)
        case (Some err)
        then show ?thesis using Cons.prems False op Inr sc mk mk2 by (auto simp: Let_def)
      next
        case None
        obtain d3 r3 w3 where rec: "Chunks_dirs_loop E s rest w2 = (d3, r3, w3)"
          by (cases "Chunks_dirs_loop E s rest w2") auto
        from Cons.IH [OF rec] Cons.prems False op Inr sc None rec mk mk2
        show ?thesis by (auto simp: Let_def)
      qed
    qed
  qed
qed

lemma Chunks_removes:
  assumes "Chunks E src w = (r, w')" and "MkdirTemp p \<in> set (calls w')"
    and "MkdirTemp p \<notin> set (calls w)"
  shows "p \<notin> fs w'"
proof -
  obtain d1 r1 w1 where first:
    "(case Credential (conn src) of
        BasicAuth user token \<Rightarrow>
          Chunks_clone_loop E (git src) (\<lambda>repoURI. CloneRepoUsingToken E token repoURI user)
            (Repositories (conn src)) w
      | Unauthenticated \<Rightarrow>
          Chunks_clone_loop E (git src) (CloneRepoUsingUnauthenticated E) (Repositories (conn src)) w
      | NoCredential \<Rightarrow> ([], Some ErrInvalidConnectionType, w)) = (d1, r1, w1)"
    and mk1: "MkdirTemp p \<in> set (calls w1) \<Longrightarrow>
              MkdirTemp p \<in> set (calls w) \<or> (p \<in> set d1 \<and> p \<noteq> [])"
  proof (cases "Credential (conn src)")
    case (BasicAuth user token)
    have eq: "(\<lambda>repoURI. CloneRepoUsingToken E token repoURI user)
        = CloneRepo E (Some \<lparr>username = user, password = Some token\<rparr>)"
      by (auto simp: CloneRepoUsingToken_def fun_eq_iff)
    obtain d1 r1 w1 where l: "Chunks_clone_loop E (git src)
        (CloneRepo E (Some \<lparr>username = user, password = Some token\<rparr>)) (Repositories (conn src)) w
        = (d1, r1, w1)"
      using prod_cases3 by blast
    show ?thesis
      using that [of d1 r1 w1] clone_loop_MkdirTemp [OF l] l BasicAuth eq by simp
  next
    case Unauthenticated
    have eq: "CloneRepoUsingUnauthenticated E = CloneRepo E None"
      by (auto simp: CloneRepoUsingUnauthenticated_def fun_eq_iff)
    obtain d1 r1 w1 where l: "Chunks_clone_loop E (git src)
        (CloneRepo E None) (Repositories (conn src)) w = (d1, r1, w1)"
      using prod_cases3 by blast
    show ?thesis
      using that [of d1 r1 w1] clone_loop_MkdirTemp [OF l] l Unauthenticated eq by simp
  next
    case NoCredential
    show ?thesis
      using that [of "[]" "Some ErrInvalidConnectionType" w] NoCredential by simp
  qed
  show ?thesis
  proof (cases r1)
    case (Some err)
    then have w': "w' = run_deferred d1 w1"
      using assms(1) first by (simp add: Chunks_def)
    then have "MkdirTemp p \<in> set (calls w1)"
      using assms(2) by (simp add: MkdirTemp_run_deferred)
    then have "p \<in> set d1 \<and> p \<noteq> []" using mk1 assms(3) by blast
    then show ?thesis unfolding w' by (simp add: run_deferred_removes)
  next
    case None
    obtain d2 r2 w2 where dl: "Chunks_dirs_loop E (git src) (Directories (conn src)) w1 = (d2, r2, w2)"
      using prod_cases3 by blast
    then have w': "w' = run_deferred (d1 @ d2) w2"
      using assms(1) first None by (simp add: Chunks_def)
    then have "MkdirTemp p \<in> set (calls w2)"
      using assms(2) by (simp add: MkdirTemp_run_deferred)
    then have "MkdirTemp p \<in> set (calls w1)"
      using dirs_loop_MkdirTemp [OF dl] by simp
    then have "p \<in> set (d1 @ d2) \<and> p \<noteq> []" using mk1 assms(3) by auto
    then show ?thesis unfolding w' by (simp add: run_deferred_removes)
  qed
qed



section \<open>The pass over the local directories\<close>

lemma dirs_loop_filter:
  "Chunks_dirs_loop E s (filter (\<lambda>u. \<not> suffix ''git'' u) dirs) w = Chunks_dirs_loop E s dirs w"
proof (induction dirs arbitrary: w)
  case Nil
  then show ?case by simp
next
  case (Cons u rest)
  show ?case
    using Cons.IH by (auto simp: Let_def split: prod.splits sum.splits option.splits)
qed

lemma RepoFromPath_calls:
  "RepoFromPath E u w = (res, w') \<Longrightarrow> calls w' = calls w @ [PlainOpen_call u]"
  by (auto simp: RepoFromPath_def)

lemma run_ScanRepo_calls:
  "run_ScanRepo E s repo u w = (e, w') \<Longrightarrow> calls w' = calls w @ [ScanRepo_call u]"
  by (auto simp: run_ScanRepo_def split: prod.splits)

lemma dirs_loop_calls:
  "Chunks_dirs_loop E s dirs w = (deferred, r, w') \<Longrightarrow>
   \<exists>new. calls w' = calls w @ new
     \<and> (\<forall>u. suffix ''git'' u \<longrightarrow> PlainOpen_call u \<notin> set new \<and> ScanRepo_call u \<notin> set new)
     \<and> (r = None \<longrightarrow> (\<forall>u\<in>set dirs. u \<noteq> [] \<and> \<not> suffix ''git'' u
            \<longrightarrow> PlainOpen_call u \<in> set new \<and> ScanRepo_call u \<in> set new))"
proof (induction dirs arbitrary: w deferred r w')
  case Nil
  then show ?case by simp
next
  case (Cons u rest)
  show ?case
  proof (cases "length u = 0 \<or> suffix ''git'' u")
    case True
    then have "Chunks_dirs_loop E s rest w = (deferred, r, w')"
      using Cons.prems by (auto split: if_splits)
    from Cons.IH [OF this] True show ?thesis by auto
  next
    case False
    obtain res w1 where op: "RepoFromPath E u w = (res, w1)"
      by (cases "RepoFromPath E u w") auto
    note c1 = RepoFromPath_calls [OF op]
    show ?thesis
    proof (cases res)
      case (Inl err)
      then have "w' = w1" "r = Some err" using Cons.prems False op by auto
      then show ?thesis using c1 False by auto
    next
      case (Inr repo)
      obtain e w2 where sc: "run_ScanRepo E s repo u w1 = (e, w2)"
        by (cases "run_ScanRepo E s repo u w1") auto
      note c2 = run_ScanRepo_calls [OF sc]
      show ?thesis
      proof (cases e)
        case (Some err)
        then have "w' = w2" "r = Some err"
          using Cons.prems False op Inr sc by (auto simp: Let_def)
        then show ?thesis using c1 c2 False by auto
      next
        case None
        obtain d3 r3 w3 where rec: "Chunks_dirs_loop E s rest w2 = (d3, r3, w3)"
          by (cases "Chunks_dirs_loop E s rest w2") auto
        have res': "w' = w3" "r = r3"
          using Cons.prems False op Inr sc None rec by (auto simp: Let_def)
        from Cons.IH [OF rec] obtain new where
          n1: "calls w3 = calls w2 @ new"
          and n2: "\<forall>u. suffix ''git'' u \<longrightarrow> PlainOpen_call u \<notin> set new \<and> ScanRepo_call u \<notin> set new"
          and n3: "r3 = None \<longrightarrow> (\<forall>u\<in>set rest. u \<noteq> [] \<and> \<not> suffix ''git'' u
            \<longrightarrow> PlainOpen_call u \<in> set new \<and> ScanRepo_call u \<in> set new)"
          by blast
        have "calls w' = calls w @ ([PlainOpen_call u, ScanRepo_call u] @ new)"
          using n1 c1 c2 res' by simp
        moreover have "\<forall>v. suffix ''git'' v \<longrightarrow>
            PlainOpen_call v \<notin> set ([PlainOpen_call u, ScanRepo_call u] @ new)
            \<and> ScanRepo_call v \<notin> set ([PlainOpen_call u, ScanRepo_call u] @ new)"
          using n2 False by auto
        moreover have "r = None \<longrightarrow> (\<forall>v\<in>set (u # rest). v \<noteq> [] \<and> \<not> suffix ''git'' v
            \<longrightarrow> PlainOpen_call v \<in> set ([PlainOpen_call u, ScanRepo_call u] @ new)
                \<and> ScanRepo_call v \<in> set ([PlainOpen_call u, ScanRepo_call u] @ new))"
          using n3 res' by auto
        ultimately show ?thesis by blast
      qed
    qed
  qed
qed




section \<open>Order of the reference resolver\<close>

text \<open>
  C8. Resolving a base reference asks for the literal name, then
  \<open>refs/heads/<base>\<close>, then \<open>refs/remotes/origin/<base>\<close>, in that order. The first
  answer that is not reference-not-found ends the search: a hash is returned, any other
  error is returned as it is, and no further prefix is asked for. The
  "no base refs succeeded" error is the result only after all three were asked for and
  all three answered reference-not-found.
\<close>

theorem TryAdditionalBaseRefs_fixed_order:
  "TryAdditionalBaseRefs resolve base =
     (let r1 = resolve base;
          r2 = resolve (''refs/heads/'' @ base);
          r3 = resolve (''refs/remotes/origin/'' @ base)
      in if r1 \<noteq> Inl ErrReferenceNotFound then ([base], r1)
         else if r2 \<noteq> Inl ErrReferenceNotFound then ([base, ''refs/heads/'' @ base], r2)
         else if r3 \<noteq> Inl ErrReferenceNotFound
              then ([base, ''refs/heads/'' @ base, ''refs/remotes/origin/'' @ base], r3)
              else ([base, ''refs/heads/'' @ base, ''refs/remotes/origin/'' @ base],
                    Inl (ErrNoBaseRefs base)))"
  by (auto simp: TryAdditionalBaseRefs_def revisionPrefixes_def Let_def split: sum.splits)

end
